theory Spec2Isabelle
  imports Complex_Main
begin

section \<open>Session-liveness tracker of app.py\<close>

text \<open>
  The embedding covers the connection tracker of \<^verbatim>\<open>app.py\<close>: the module globals
  \<^verbatim>\<open>active_connections\<close> and \<^verbatim>\<open>connection_last_ping\<close>, the callback
  \<^verbatim>\<open>handle_connection_status\<close> and the loop of \<^verbatim>\<open>monitor_connections\<close>.

  Modelling decisions.
  \<^item> Clock readings (\<^verbatim>\<open>time.time()\<close>, a float of seconds) are values of type \<open>real\<close>;
    every reading is an argument of the function that takes it.
  \<^item> The callback payload is any value decoded from JSON (\<open>pyval\<close>): the page's own
    script sends \<^verbatim>\<open>{'status': ..., 'id': ...}\<close> with two strings, but the callback has no
    check of the type of \<^verbatim>\<open>data\<close> or of the id and no \<^verbatim>\<open>try\<close>, so the
    \<^verbatim>\<open>AttributeError\<close> of \<^verbatim>\<open>data.get\<close> on a value that is not a dict and the
    \<^verbatim>\<open>TypeError\<close> of a set or dict operation on an unhashable id are branches of the
    model. The result of a call records how the call ended (\<open>outcome\<close>), the global state
    it left behind and the lines it printed up to that point.
  \<^item> Both critical sections run under \<^verbatim>\<open>connection_lock\<close>; each is one atomic step on
    the tracker state, and an execution is a list of such steps in lock order.
  \<^item> \<^verbatim>\<open>os._exit(0)\<close> is counted in the field \<open>exit_calls\<close>; once it is positive the
    process is gone and no further step changes anything.
\<close>

subsection \<open>Values, payloads and the tracker state\<close>

text \<open>
  A value decoded from JSON, as far as the code can tell values apart: by truthiness, by
  \<^verbatim>\<open>==\<close> and hash (membership in the set, keys of the dict) and by having a
  \<^verbatim>\<open>get\<close> method. A number is given by its value, which is how Python compares and
  hashes ints and floats; the booleans are the numbers 1 and 0, as they are in Python
  (\<^verbatim>\<open>True == 1\<close>, with the same hash and the same truthiness). NaN is not represented.
  The keys of a JSON object are strings.
\<close>

datatype pyval =
    PyNone
  | PyNum real
  | PyStr string
  | PyList "pyval list"
  | PyDict "(string \<times> pyval) list"

fun truthy :: "pyval \<Rightarrow> bool" where
  "truthy PyNone = False"
| "truthy (PyNum r) = (r \<noteq> 0)"
| "truthy (PyStr v) = (v \<noteq> [])"
| "truthy (PyList vs) = (vs \<noteq> [])"
| "truthy (PyDict d) = (d \<noteq> [])"

text \<open>Lists and dicts are unhashable: using one as a set element or dict key raises.\<close>

fun hashable :: "pyval \<Rightarrow> bool" where
  "hashable (PyList vs) = False"
| "hashable (PyDict d) = False"
| "hashable v = True"

datatype py_error = AttributeError | TypeError

text \<open>\<^verbatim>\<open>d.get(k)\<close>: the value stored under \<open>k\<close>, \<^verbatim>\<open>None\<close> when the key is missing.\<close>

definition dict_get :: "(string \<times> pyval) list \<Rightarrow> string \<Rightarrow> pyval" where
  "dict_get d k = (case map_of d k of None \<Rightarrow> PyNone | Some v \<Rightarrow> v)"

record tracker =
  active_connections :: "pyval set"
  connection_last_ping :: "pyval \<rightharpoonup> real"
  startup_time :: real
  had_connections :: bool
  exit_calls :: nat

definition startup_grace_period :: real where
  "startup_grace_period = 60"

definition connection_timeout :: real where
  "connection_timeout = 300"

text \<open>The period of \<^verbatim>\<open>time.sleep(2)\<close> at the head of the monitor loop.\<close>

definition sweep_interval :: real where
  "sweep_interval = 2"

text \<open>
  The state when \<^verbatim>\<open>monitor_connections\<close> enters its loop: both globals empty,
  \<^verbatim>\<open>startup_time\<close> read from the clock, \<^verbatim>\<open>had_connections = False\<close>.
\<close>

definition init :: "real \<Rightarrow> tracker" where
  "init t0 = \<lparr>active_connections = {}, connection_last_ping = Map.empty,
     startup_time = t0, had_connections = False, exit_calls = 0\<rparr>"

subsection \<open>The callback \<^verbatim>\<open>handle_connection_status\<close>\<close>

datatype log_line =
    Empty_data_warning
  | Status_update_received pyval pyval
  | New_connection pyval nat
  | Connection_closed pyval nat
  | Reconnected_via_ping pyval nat
  | Connection_hidden pyval nat
  | Unhandled_status pyval pyval

datatype callback_result = no_update

text \<open>
  \<open>outcome\<close> is \<open>Inr no_update\<close> when the call returns and \<open>Inl e\<close> when the exception
  \<open>e\<close> leaves it; \<open>new_state\<close> and \<open>printed\<close> are the globals and the output at that
  moment.
\<close>

record handler_out =
  new_state :: tracker
  printed :: "log_line list"
  outcome :: "py_error + callback_result"

text \<open>
  The chain of \<^verbatim>\<open>if\<close>/\<^verbatim>\<open>elif\<close> in the order of the source. The guard of the second
  branch evaluates \<^verbatim>\<open>connection_id in active_connections\<close> as soon as the status is
  \<^verbatim>\<open>'disconnected'\<close>, whatever the truthiness of the id, and that test raises on an
  unhashable id. In the other three branches the first statement that touches the set or
  the dict raises on an unhashable id, before anything is changed.
\<close>

definition handle_connection_status :: "pyval \<Rightarrow> real \<Rightarrow> tracker \<Rightarrow> handler_out" where
  "handle_connection_status data current_time s =
    (if \<not> truthy data then
       \<lparr>new_state = s, printed = [Empty_data_warning], outcome = Inr no_update\<rparr>
     else case data of
       PyDict d \<Rightarrow>
          let connection_id = dict_get d ''id'';
              status = dict_get d ''status'';
              received = Status_update_received status connection_id
          in
          if status = PyStr ''connected'' \<and> truthy connection_id then
            if \<not> hashable connection_id then
              \<lparr>new_state = s, printed = [received], outcome = Inl TypeError\<rparr>
            else
              let s' = s\<lparr>active_connections := insert connection_id (active_connections s),
                         connection_last_ping := (connection_last_ping s)(connection_id \<mapsto> current_time)\<rparr>
              in \<lparr>new_state = s',
                  printed = [received, New_connection connection_id (card (active_connections s'))],
                  outcome = Inr no_update\<rparr>
          else if status = PyStr ''disconnected'' \<and> \<not> hashable connection_id then
            \<lparr>new_state = s, printed = [received], outcome = Inl TypeError\<rparr>
          else if status = PyStr ''disconnected'' \<and> connection_id \<in> active_connections s then
            let s' = s\<lparr>active_connections := active_connections s - {connection_id},
                       connection_last_ping := (connection_last_ping s)(connection_id := None)\<rparr>
            in \<lparr>new_state = s',
                printed = [received, Connection_closed connection_id (card (active_connections s'))],
                outcome = Inr no_update\<rparr>
          else if status = PyStr ''ping'' \<and> truthy connection_id then
            if \<not> hashable connection_id then
              \<lparr>new_state = s, printed = [received], outcome = Inl TypeError\<rparr>
            else
              let s1 = s\<lparr>connection_last_ping := (connection_last_ping s)(connection_id \<mapsto> current_time)\<rparr>
              in if connection_id \<notin> active_connections s1 then
                   let s' = s1\<lparr>active_connections := insert connection_id (active_connections s1)\<rparr>
                   in \<lparr>new_state = s',
                       printed = [received, Reconnected_via_ping connection_id (card (active_connections s'))],
                       outcome = Inr no_update\<rparr>
                 else \<lparr>new_state = s1, printed = [received], outcome = Inr no_update\<rparr>
          else if status = PyStr ''hidden'' \<and> truthy connection_id then
            if \<not> hashable connection_id then
              \<lparr>new_state = s, printed = [received], outcome = Inl TypeError\<rparr>
            else
              let s1 = s\<lparr>connection_last_ping := (connection_last_ping s)(connection_id \<mapsto> current_time)\<rparr>;
                  s' = (if connection_id \<notin> active_connections s1
                        then s1\<lparr>active_connections := insert connection_id (active_connections s1)\<rparr>
                        else s1)
              in \<lparr>new_state = s',
                  printed = [received, Connection_hidden connection_id (card (active_connections s'))],
                  outcome = Inr no_update\<rparr>
          else \<lparr>new_state = s, printed = [received, Unhandled_status status connection_id],
                outcome = Inr no_update\<rparr>
     | _ \<Rightarrow> \<lparr>new_state = s, printed = [], outcome = Inl AttributeError\<rparr>)"

subsection \<open>One pass of the loop of \<^verbatim>\<open>monitor_connections\<close>\<close>

text \<open>
  One iteration of \<^verbatim>\<open>while True\<close> after \<^verbatim>\<open>time.sleep(2)\<close> has returned. The clock is
  read twice: \<open>t_check\<close> for the grace-period test and \<open>current_time\<close> for the scan, which
  is only reached when the test does not \<^verbatim>\<open>continue\<close>. The lines printed per evicted
  id depend on the iteration order of a Python set and are not part of the model.
\<close>

definition last_ping_or_0 :: "tracker \<Rightarrow> pyval \<Rightarrow> real" where
  "last_ping_or_0 s conn_id = (case connection_last_ping s conn_id of None \<Rightarrow> 0 | Some v \<Rightarrow> v)"

definition stale_connections :: "real \<Rightarrow> tracker \<Rightarrow> pyval set" where
  "stale_connections current_time s =
     Set.filter (\<lambda>conn_id. last_ping_or_0 s conn_id > 0 \<and>
                   current_time - last_ping_or_0 s conn_id > connection_timeout)
       (active_connections s)"

definition remove_stale :: "real \<Rightarrow> tracker \<Rightarrow> tracker" where
  "remove_stale current_time s =
     s\<lparr>active_connections := active_connections s - stale_connections current_time s,
       connection_last_ping := connection_last_ping s |` (- stale_connections current_time s)\<rparr>"

definition monitor_connections_pass :: "real \<Rightarrow> real \<Rightarrow> tracker \<Rightarrow> tracker" where
  "monitor_connections_pass t_check current_time s =
    (if t_check - startup_time s < startup_grace_period then s
     else
       let s1 = remove_stale current_time s
       in if active_connections s1 \<noteq> {} then s1\<lparr>had_connections := True\<rparr>
          else if had_connections s1 then s1\<lparr>exit_calls := Suc (exit_calls s1)\<rparr>
          else s1)"

subsection \<open>Executions\<close>

text \<open>
  \<open>Signal data now\<close> is one call of the callback with payload \<open>data\<close> and clock reading
  \<open>now\<close>; \<open>Tick t_check current_time\<close> is one pass of the monitor loop. After
  \<^verbatim>\<open>os._exit\<close> nothing runs.
\<close>

datatype event = Signal pyval real | Tick real real

fun step :: "tracker \<Rightarrow> event \<Rightarrow> tracker" where
  "step s (Signal data now) =
     (if exit_calls s > 0 then s else new_state (handle_connection_status data now s))"
| "step s (Tick t_check current_time) =
     (if exit_calls s > 0 then s else monitor_connections_pass t_check current_time s)"

definition run :: "tracker \<Rightarrow> event list \<Rightarrow> tracker" where
  "run s es = foldl step s es"

text \<open>The states an execution passes through, the first one included.\<close>

fun states :: "tracker \<Rightarrow> event list \<Rightarrow> tracker list" where
  "states s [] = [s]"
| "states s (e # es) = s # states (step s e) es"

text \<open>The payload the page's script builds for a status and a connection id.\<close>

definition signal :: "string \<Rightarrow> string \<Rightarrow> pyval" where
  "signal status cid = PyDict [(''status'', PyStr status), (''id'', PyStr cid)]"

subsection \<open>Predicates used in the statements\<close>

text \<open>
  \<open>after_start t0 e\<close>: the clock reading a callback takes is not before the reading
  \<^verbatim>\<open>startup_time\<close>. \<open>ids_truthy\<close>, \<open>pings_cover\<close> and \<open>pings_after_start\<close> are the
  invariants of the two globals; \<open>connect_or_ping cid e\<close> holds of a callback whose
  payload carries id \<open>cid\<close> and status \<^verbatim>\<open>connected\<close> or \<^verbatim>\<open>ping\<close>.
\<close>

fun after_start :: "real \<Rightarrow> event \<Rightarrow> bool" where
  "after_start t0 (Signal data now) = (t0 \<le> now)"
| "after_start t0 (Tick t_check current_time) = True"


definition pings_cover :: "tracker \<Rightarrow> bool" where
  "pings_cover s = (active_connections s = dom (connection_last_ping s))"

definition pings_after_start :: "tracker \<Rightarrow> bool" where
  "pings_after_start s =
     (\<forall>c v. connection_last_ping s c = Some v \<longrightarrow> startup_time s \<le> v \<and> 0 < v)"

fun connect_or_ping :: "string \<Rightarrow> event \<Rightarrow> bool" where
  "connect_or_ping cid (Signal data now) =
     (case data of
        PyDict d \<Rightarrow> dict_get d ''id'' = PyStr cid \<and>
          dict_get d ''status'' \<in> {PyStr ''connected'', PyStr ''ping''}
      | _ \<Rightarrow> False)"
| "connect_or_ping cid (Tick t_check current_time) = False"

section \<open>Lemmas about the embedding\<close>

subsection \<open>Fields left alone by each operation\<close>

lemma handler_had:
  "had_connections (new_state (handle_connection_status data now s)) = had_connections s"
  by (simp add: handle_connection_status_def Let_def split: pyval.splits)

lemma handler_exit:
  "exit_calls (new_state (handle_connection_status data now s)) = exit_calls s"
  by (simp add: handle_connection_status_def Let_def split: pyval.splits)

lemma handler_startup:
  "startup_time (new_state (handle_connection_status data now s)) = startup_time s"
  by (simp add: handle_connection_status_def Let_def split: pyval.splits)

lemma remove_stale_had: "had_connections (remove_stale now s) = had_connections s"
  by (simp add: remove_stale_def)

lemma remove_stale_exit: "exit_calls (remove_stale now s) = exit_calls s"
  by (simp add: remove_stale_def)

lemma remove_stale_startup: "startup_time (remove_stale now s) = startup_time s"
  by (simp add: remove_stale_def)

lemma remove_stale_active:
  "active_connections (remove_stale now s) = active_connections s - stale_connections now s"
  by (simp add: remove_stale_def)

lemma remove_stale_ping:
  "connection_last_ping (remove_stale now s) c =
     (if c \<in> stale_connections now s then None else connection_last_ping s c)"
  by (simp add: remove_stale_def restrict_map_def)

lemma pass_startup:
  "startup_time (monitor_connections_pass t_check now s) = startup_time s"
  by (simp add: monitor_connections_pass_def Let_def remove_stale_startup)

lemma pass_skipped:
  "t_check - startup_time s < startup_grace_period \<Longrightarrow>
     monitor_connections_pass t_check now s = s"
  by (simp add: monitor_connections_pass_def)

lemma pass_active:
  "startup_grace_period \<le> t_check - startup_time s \<Longrightarrow>
     active_connections (monitor_connections_pass t_check now s) =
       active_connections s - stale_connections now s"
  by (simp add: monitor_connections_pass_def Let_def remove_stale_active)

lemma pass_ping:
  "startup_grace_period \<le> t_check - startup_time s \<Longrightarrow>
     connection_last_ping (monitor_connections_pass t_check now s) c =
       (if c \<in> stale_connections now s then None else connection_last_ping s c)"
  by (simp add: monitor_connections_pass_def Let_def remove_stale_ping)

lemma pass_had:
  "had_connections (monitor_connections_pass t_check now s) =
     (had_connections s \<or>
      (startup_grace_period \<le> t_check - startup_time s \<and>
       active_connections (remove_stale now s) \<noteq> {}))"
  by (auto simp add: monitor_connections_pass_def Let_def remove_stale_had)

lemma pass_exit:
  "exit_calls (monitor_connections_pass t_check now s) =
     (if startup_grace_period \<le> t_check - startup_time s \<and> had_connections s \<and>
         active_connections (remove_stale now s) = {}
      then Suc (exit_calls s) else exit_calls s)"
  by (auto simp add: monitor_connections_pass_def Let_def remove_stale_had remove_stale_exit)

lemma stale_iff:
  "c \<in> stale_connections now s \<longleftrightarrow>
     c \<in> active_connections s \<and> 0 < last_ping_or_0 s c \<and>
     connection_timeout < now - last_ping_or_0 s c"
  by (auto simp add: stale_connections_def)

subsection \<open>What the callback does to the state\<close>

lemma handler_upsert:
  assumes "truthy (dict_get d ''id'')" "hashable (dict_get d ''id'')"
    and "dict_get d ''status'' \<in> {PyStr ''connected'', PyStr ''ping'', PyStr ''hidden''}"
  shows "new_state (handle_connection_status (PyDict d) now s) =
           s\<lparr>active_connections := insert (dict_get d ''id'') (active_connections s),
             connection_last_ping := (connection_last_ping s)(dict_get d ''id'' \<mapsto> now)\<rparr>"
    and "outcome (handle_connection_status (PyDict d) now s) = Inr no_update"
proof -
  have d: "d \<noteq> []" using assms(1) by (auto simp add: dict_get_def)
  show "new_state (handle_connection_status (PyDict d) now s) =
           s\<lparr>active_connections := insert (dict_get d ''id'') (active_connections s),
             connection_last_ping := (connection_last_ping s)(dict_get d ''id'' \<mapsto> now)\<rparr>"
    using d assms by (auto simp add: handle_connection_status_def Let_def insert_absorb)
  show "outcome (handle_connection_status (PyDict d) now s) = Inr no_update"
    using d assms by (auto simp add: handle_connection_status_def Let_def)
qed


lemma handler_cases:
  "new_state (handle_connection_status data now s) = s \<or>
   (\<exists>c. truthy c \<and> new_state (handle_connection_status data now s) =
           s\<lparr>active_connections := insert c (active_connections s),
             connection_last_ping := (connection_last_ping s)(c \<mapsto> now)\<rparr>) \<or>
   (\<exists>c. new_state (handle_connection_status data now s) =
           s\<lparr>active_connections := active_connections s - {c},
             connection_last_ping := (connection_last_ping s)(c := None)\<rparr>)"
proof (cases data)
  case (PyDict d)
  then show ?thesis
    by (auto simp add: handle_connection_status_def Let_def insert_absorb)
qed (simp_all add: handle_connection_status_def)

subsection \<open>Executions\<close>

lemma run_Nil: "run s [] = s"
  by (simp add: run_def)

lemma run_Cons: "run s (e # es) = run (step s e) es"
  by (simp add: run_def)

lemma run_snoc: "run s (es @ [e]) = step (run s es) e"
  by (simp add: run_def)

lemma run_invariant:
  assumes "P s" and "\<And>s' e. P s' \<Longrightarrow> e \<in> set es \<Longrightarrow> P (step s' e)"
  shows "P (run s es)"
  using assms
proof (induction es arbitrary: s)
  case Nil
  then show ?case by (simp add: run_Nil)
next
  case (Cons e es)
  have "P (step s e)" using Cons.prems by simp
  then show ?case using Cons.IH Cons.prems(2) by (simp add: run_Cons)
qed

lemma step_startup: "startup_time (step s e) = startup_time s"
  by (cases e) (simp_all add: handler_startup pass_startup)

lemma run_startup: "startup_time (run s es) = startup_time s"
  by (rule run_invariant [where P = "\<lambda>x. startup_time x = startup_time s"])
     (simp_all add: step_startup)

subsection \<open>Invariants of reachable states\<close>






lemma pings_cover_handler:
  "pings_cover s \<Longrightarrow> pings_cover (new_state (handle_connection_status data now s))"
  using handler_cases [of data now s] by (auto simp add: pings_cover_def split: if_splits)

lemma pings_cover_remove_stale:
  "pings_cover s \<Longrightarrow> pings_cover (remove_stale now s)"
  by (auto simp add: pings_cover_def remove_stale_active remove_stale_ping dom_def)

lemma pings_cover_pass:
  "pings_cover s \<Longrightarrow> pings_cover (monitor_connections_pass t_check now s)"
  using pings_cover_remove_stale [of s now]
  by (simp add: monitor_connections_pass_def Let_def pings_cover_def)

lemma pings_cover_step: "pings_cover s \<Longrightarrow> pings_cover (step s e)"
  by (cases e) (simp_all add: pings_cover_handler pings_cover_pass)

lemma pings_cover_init: "pings_cover (init t0)"
  by (simp add: pings_cover_def init_def)

lemma pings_cover_run: "pings_cover (run (init t0) es)"
  by (rule run_invariant [where P = pings_cover]) (simp_all add: pings_cover_step pings_cover_init)

lemma pings_after_start_handler:
  "pings_after_start s \<Longrightarrow> startup_time s \<le> now \<Longrightarrow> 0 < now \<Longrightarrow>
     pings_after_start (new_state (handle_connection_status data now s))"
  using handler_cases [of data now s]
  by (auto simp add: pings_after_start_def split: if_splits)

lemma pings_after_start_pass:
  "pings_after_start s \<Longrightarrow> pings_after_start (monitor_connections_pass t_check now s)"
  by (cases "t_check - startup_time s < startup_grace_period")
     (auto simp add: pings_after_start_def pass_skipped pass_ping pass_startup split: if_splits)

lemma pings_after_start_step:
  "pings_after_start s \<Longrightarrow> 0 < startup_time s \<Longrightarrow> after_start (startup_time s) e \<Longrightarrow>
     pings_after_start (step s e)"
  by (cases e) (simp_all add: pings_after_start_handler pings_after_start_pass)

lemma pings_after_start_run:
  assumes "0 < t0" and "\<forall>e \<in> set es. after_start t0 e"
  shows "pings_after_start (run (init t0) es)"
proof (rule run_invariant [where P = "\<lambda>x. pings_after_start x \<and> startup_time x = t0", THEN conjunct1])
  show "pings_after_start (init t0) \<and> startup_time (init t0) = t0"
    by (simp add: pings_after_start_def init_def)
next
  fix s' e
  assume "pings_after_start s' \<and> startup_time s' = t0" and "e \<in> set es"
  then show "pings_after_start (step s' e) \<and> startup_time (step s' e) = t0"
    using assms by (simp add: pings_after_start_step step_startup)
qed


subsection \<open>The flag, the exit count and resubmitted signals\<close>

lemma step_had: "had_connections s \<Longrightarrow> had_connections (step s e)"
  by (cases e) (simp_all add: handler_had pass_had)

lemma run_had: "had_connections s \<Longrightarrow> had_connections (run s es)"
  by (rule run_invariant [where P = had_connections]) (simp_all add: step_had)

lemma step_exited: "0 < exit_calls s \<Longrightarrow> step s e = s"
  by (cases e) simp_all

lemma run_exited: "0 < exit_calls s \<Longrightarrow> run s es = s"
  by (induction es) (simp_all add: run_Nil run_Cons step_exited)

lemma step_exit_le: "exit_calls s \<le> 1 \<Longrightarrow> exit_calls (step s e) \<le> 1"
  by (cases e) (auto simp add: handler_exit pass_exit)

lemma run_exit_le: "exit_calls (run (init t0) es) \<le> 1"
proof (rule run_invariant [where P = "\<lambda>x. exit_calls x \<le> 1"])
  show "exit_calls (init t0) \<le> 1" by (simp add: init_def)
next
  fix s' :: tracker and e
  assume "exit_calls s' \<le> 1"
  then show "exit_calls (step s' e) \<le> 1" by (rule step_exit_le)
qed

lemma step_quiet:
  assumes "\<not> had_connections s" "exit_calls s = 0" "active_connections (step s e) = {}"
  shows "\<not> had_connections (step s e) \<and> exit_calls (step s e) = 0"
proof (cases e)
  case (Signal data now)
  then show ?thesis using assms by (simp add: handler_had handler_exit)
next
  case (Tick t_check now)
  show ?thesis
  proof (cases "t_check - startup_time s < startup_grace_period")
    case True
    then show ?thesis using assms Tick by (simp add: pass_skipped)
  next
    case False
    then have "active_connections (remove_stale now s) = {}"
      using assms Tick by (simp add: pass_active remove_stale_active)
    then show ?thesis using assms Tick by (simp add: pass_had pass_exit)
  qed
qed

lemma states_quiet:
  assumes "\<not> had_connections s" "exit_calls s = 0"
    and "\<forall>s' \<in> set (states s es). active_connections s' = {}"
  shows "\<forall>s' \<in> set (states s es). \<not> had_connections s' \<and> exit_calls s' = 0"
  using assms
proof (induction es arbitrary: s)
  case Nil
  then show ?case by simp
next
  case (Cons e es)
  have mem: "step s e \<in> set (states (step s e) es)" by (cases es) simp_all
  then have "active_connections (step s e) = {}" using Cons.prems(3) by simp
  then have "\<not> had_connections (step s e) \<and> exit_calls (step s e) = 0"
    using Cons.prems(1,2) by (rule_tac step_quiet)
  then show ?case using Cons.IH [of "step s e"] Cons.prems by simp
qed

lemma run_in_states: "run s es \<in> set (states s es)"
  by (induction es arbitrary: s) (simp_all add: run_Nil run_Cons)

lemma reachable_last_ping:
  assumes "0 < t0" and "\<forall>e \<in> set es. after_start t0 e"
    and "c \<in> active_connections (run (init t0) es)"
  shows "\<exists>v. connection_last_ping (run (init t0) es) c = Some v \<and> t0 \<le> v \<and> 0 < v"
proof -
  have "c \<in> dom (connection_last_ping (run (init t0) es))"
    using pings_cover_run [of t0 es] assms(3) by (simp add: pings_cover_def)
  then obtain v where v: "connection_last_ping (run (init t0) es) c = Some v" by blast
  have "pings_after_start (run (init t0) es)"
    using assms(1,2) by (rule pings_after_start_run)
  then have "startup_time (run (init t0) es) \<le> v \<and> 0 < v"
    using v by (simp add: pings_after_start_def)
  then show ?thesis using v by (simp add: run_startup init_def)
qed

lemma dict_get_nonempty: "dict_get d k = PyStr v \<Longrightarrow> d \<noteq> []"
  by (auto simp add: dict_get_def)

lemma step_connect_or_ping:
  assumes "cid \<noteq> []" "exit_calls s = 0" "connect_or_ping cid e"
  shows "\<exists>now. step s e =
           s\<lparr>active_connections := insert (PyStr cid) (active_connections s),
             connection_last_ping := (connection_last_ping s)(PyStr cid \<mapsto> now)\<rparr>"
proof (cases e)
  case (Signal data now)
  then obtain d where d: "data = PyDict d" "dict_get d ''id'' = PyStr cid"
      "dict_get d ''status'' \<in> {PyStr ''connected'', PyStr ''ping''}"
    using assms(3) by (auto split: pyval.splits)
  have "new_state (handle_connection_status (PyDict d) now s) =
      s\<lparr>active_connections := insert (dict_get d ''id'') (active_connections s),
        connection_last_ping := (connection_last_ping s)(dict_get d ''id'' \<mapsto> now)\<rparr>"
    using d assms(1) by (intro handler_upsert(1)) auto
  then have "step s e =
      s\<lparr>active_connections := insert (PyStr cid) (active_connections s),
        connection_last_ping := (connection_last_ping s)(PyStr cid \<mapsto> now)\<rparr>"
    using Signal d assms(2) by simp
  then show ?thesis by (rule exI)
next
  case (Tick a b)
  then show ?thesis using assms(3) by simp
qed

lemma step_connect_or_ping_fields:
  assumes "cid \<noteq> []" "exit_calls s = 0" "connect_or_ping cid e"
  shows "active_connections (step s e) = insert (PyStr cid) (active_connections s)"
    and "dom (connection_last_ping (step s e)) = insert (PyStr cid) (dom (connection_last_ping s))"
    and "exit_calls (step s e) = 0"
proof -
  obtain now where st: "step s e =
           s\<lparr>active_connections := insert (PyStr cid) (active_connections s),
             connection_last_ping := (connection_last_ping s)(PyStr cid \<mapsto> now)\<rparr>"
    using step_connect_or_ping [OF assms] by blast
  show "active_connections (step s e) = insert (PyStr cid) (active_connections s)"
    by (simp add: st)
  show "dom (connection_last_ping (step s e)) = insert (PyStr cid) (dom (connection_last_ping s))"
    by (simp add: st)
  show "exit_calls (step s e) = 0"
    using assms(2) by (simp add: st)
qed

lemma run_connect_or_ping:
  assumes "cid \<noteq> []" "exit_calls s = 0" "es \<noteq> []" "\<forall>e \<in> set es. connect_or_ping cid e"
  shows "active_connections (run s es) = insert (PyStr cid) (active_connections s) \<and>
         dom (connection_last_ping (run s es)) = insert (PyStr cid) (dom (connection_last_ping s)) \<and>
         exit_calls (run s es) = 0"
  using assms
proof (induction es arbitrary: s)
  case Nil
  then show ?case by simp
next
  case (Cons e es)
  have e: "connect_or_ping cid e" using Cons.prems(4) by simp
  note st = step_connect_or_ping_fields [OF Cons.prems(1,2) e]
  show ?case
  proof (cases "es = []")
    case True
    then show ?thesis using st by (simp add: run_Cons run_Nil)
  next
    case False
    then have "active_connections (run (step s e) es) = insert (PyStr cid) (active_connections (step s e)) \<and>
         dom (connection_last_ping (run (step s e) es)) = insert (PyStr cid) (dom (connection_last_ping (step s e))) \<and>
         exit_calls (run (step s e) es) = 0"
      using Cons.IH [of "step s e"] Cons.prems(1,4) st(3) by simp
    then show ?thesis using st by (simp add: run_Cons)
  qed
qed

lemma handler_disconnect_absent:
  assumes "dict_get d ''status'' = PyStr ''disconnected''"
    and "dict_get d ''id'' \<notin> active_connections s"
  shows "new_state (handle_connection_status (PyDict d) now s) = s"
  using assms by (simp add: handle_connection_status_def Let_def)





section \<open>The claims\<close>

subsection \<open>C1: when \<^verbatim>\<open>had_connections\<close> is set\<close>

text \<open>
  C1, as stated, fails. The first session of the process is inserted by a
  \<^verbatim>\<open>connected\<close> signal read at clock 5 (inside the grace period of a process started at
  clock 0), and likewise by a \<^verbatim>\<open>ping\<close> read at clock 70 (after it): the registry then
  holds the id, and \<^verbatim>\<open>had_connections\<close> is still false when the callback returns.
\<close>

theorem upsert_leaves_flag_unset:
  "active_connections (init 0) = {} \<and>
   active_connections (new_state (handle_connection_status (signal ''connected'' ''X'') 5 (init 0)))
     = {PyStr ''X''} \<and>
   \<not> had_connections (new_state (handle_connection_status (signal ''connected'' ''X'') 5 (init 0))) \<and>
   active_connections (new_state (handle_connection_status (signal ''ping'' ''X'') 70 (init 0)))
     = {PyStr ''X''} \<and>
   \<not> had_connections (new_state (handle_connection_status (signal ''ping'' ''X'') 70 (init 0)))"
  by (simp add: handle_connection_status_def signal_def init_def dict_get_def Let_def)

text \<open>
  C1, amended. The callback never changes \<^verbatim>\<open>had_connections\<close>. A pass of the monitor
  loop that runs after the startup grace period and finds \<^verbatim>\<open>active_connections\<close>
  non-empty once the stale ids are removed leaves the flag true.
\<close>

theorem flag_set_by_monitor_pass:
  "had_connections (new_state (handle_connection_status data now s)) = had_connections s \<and>
   (startup_grace_period \<le> t_check - startup_time s \<and>
    active_connections (remove_stale current_time s) \<noteq> {} \<longrightarrow>
      had_connections (monitor_connections_pass t_check current_time s))"
  by (simp add: handler_had pass_had)

text \<open>
  The amended C1 at a concrete input: a session connected at clock 5 is still registered
  at the pass of clock 62, and that pass sets the flag.
\<close>

theorem flag_set_by_monitor_pass_witness:
  "startup_grace_period \<le> 62 - startup_time (new_state (handle_connection_status (signal ''connected'' ''X'') 5 (init 0))) \<and>
   active_connections (remove_stale 62 (new_state (handle_connection_status (signal ''connected'' ''X'') 5 (init 0)))) \<noteq> {} \<and>
   had_connections (monitor_connections_pass 62 62
      (new_state (handle_connection_status (signal ''connected'' ''X'') 5 (init 0))))"
proof -
  let ?s = "new_state (handle_connection_status (signal ''connected'' ''X'') 5 (init 0))"
  have h1: "startup_grace_period \<le> 62 - startup_time ?s"
    by (simp add: handler_startup init_def startup_grace_period_def)
  have h2: "active_connections (remove_stale 62 ?s) \<noteq> {}"
    by (simp add: handle_connection_status_def signal_def init_def dict_get_def Let_def
        remove_stale_def stale_connections_def last_ping_or_0_def connection_timeout_def)
  from flag_set_by_monitor_pass [of "signal ''connected'' ''X''" 5 "?s" 62 62] h1 h2
  have "had_connections (monitor_connections_pass 62 62 ?s)" by blast
  with h1 h2 show ?thesis by blast
qed

subsection \<open>C2: where the occupancy check runs\<close>

text \<open>
  C2, as stated, fails. After the grace period a session connects, a pass of the monitor
  sets \<^verbatim>\<open>had_connections\<close>, and a \<^verbatim>\<open>disconnected\<close> signal empties the registry: when
  that callback returns the flag is true, the registry is empty, the grace period has
  elapsed, and \<^verbatim>\<open>os._exit\<close> has not been called.
\<close>

theorem handler_drain_does_not_exit:
  "had_connections (run (init 0)
      [Signal (signal ''connected'' ''X'') 70, Tick 72 72, Signal (signal ''disconnected'' ''X'') 73]) \<and>
   active_connections (run (init 0)
      [Signal (signal ''connected'' ''X'') 70, Tick 72 72, Signal (signal ''disconnected'' ''X'') 73]) = {} \<and>
   startup_grace_period \<le> 73 - startup_time (run (init 0)
      [Signal (signal ''connected'' ''X'') 70, Tick 72 72, Signal (signal ''disconnected'' ''X'') 73]) \<and>
   exit_calls (run (init 0)
      [Signal (signal ''connected'' ''X'') 70, Tick 72 72, Signal (signal ''disconnected'' ''X'') 73]) = 0"
  by (simp add: run_def handle_connection_status_def signal_def init_def dict_get_def
       monitor_connections_pass_def remove_stale_def stale_connections_def last_ping_or_0_def
       startup_grace_period_def connection_timeout_def Let_def)

text \<open>
  C2, amended. The callback never calls \<^verbatim>\<open>os._exit\<close>, and neither does a pass of the
  monitor inside the grace period. A pass after the grace period that finds the registry
  empty once the stale ids are removed, with \<^verbatim>\<open>had_connections\<close> true, calls
  \<^verbatim>\<open>os._exit\<close>.
\<close>

theorem occupancy_check_in_monitor_pass:
  "exit_calls (new_state (handle_connection_status data now s)) = exit_calls s \<and>
   (t_check - startup_time s < startup_grace_period \<longrightarrow>
      exit_calls (monitor_connections_pass t_check current_time s) = exit_calls s) \<and>
   (startup_grace_period \<le> t_check - startup_time s \<and> had_connections s \<and>
    active_connections (remove_stale current_time s) = {} \<longrightarrow>
      exit_calls (monitor_connections_pass t_check current_time s) = Suc (exit_calls s))"
  by (simp add: handler_exit pass_exit)

text \<open>
  The amended C2 at a concrete input: the pass at clock 74 that follows the execution of
  the counterexample exits the process.
\<close>

theorem occupancy_check_in_monitor_pass_witness:
  "startup_grace_period \<le> 74 - startup_time (run (init 0)
      [Signal (signal ''connected'' ''X'') 70, Tick 72 72, Signal (signal ''disconnected'' ''X'') 73]) \<and>
   had_connections (run (init 0)
      [Signal (signal ''connected'' ''X'') 70, Tick 72 72, Signal (signal ''disconnected'' ''X'') 73]) \<and>
   active_connections (remove_stale 74 (run (init 0)
      [Signal (signal ''connected'' ''X'') 70, Tick 72 72, Signal (signal ''disconnected'' ''X'') 73])) = {} \<and>
   exit_calls (monitor_connections_pass 74 74 (run (init 0)
      [Signal (signal ''connected'' ''X'') 70, Tick 72 72, Signal (signal ''disconnected'' ''X'') 73])) = 1"
proof -
  let ?s = "run (init 0)
      [Signal (signal ''connected'' ''X'') 70, Tick 72 72, Signal (signal ''disconnected'' ''X'') 73]"
  have h1: "startup_grace_period \<le> 74 - startup_time ?s"
    by (simp add: run_startup init_def startup_grace_period_def)
  have h2: "had_connections ?s"
    by (simp add: run_def handle_connection_status_def signal_def init_def dict_get_def
       monitor_connections_pass_def remove_stale_def stale_connections_def last_ping_or_0_def
       startup_grace_period_def connection_timeout_def Let_def)
  have h3: "active_connections (remove_stale 74 ?s) = {}"
    by (simp add: run_def handle_connection_status_def signal_def init_def dict_get_def
       monitor_connections_pass_def remove_stale_def stale_connections_def last_ping_or_0_def
       startup_grace_period_def connection_timeout_def Let_def)
  have h4: "exit_calls ?s = 0"
    by (simp add: run_def handle_connection_status_def signal_def init_def dict_get_def
       monitor_connections_pass_def remove_stale_def stale_connections_def last_ping_or_0_def
       startup_grace_period_def connection_timeout_def Let_def)
  from occupancy_check_in_monitor_pass [of PyNone 0 "?s" 74 74] h1 h2 h3
  have "exit_calls (monitor_connections_pass 74 74 ?s) = Suc (exit_calls ?s)" by blast
  with h1 h2 h3 h4 show ?thesis by simp
qed

subsection \<open>C3: no session, no exit\<close>

text \<open>
  C3. In every execution from process start in which the registry is empty in every state
  passed through, \<^verbatim>\<open>os._exit\<close> is never called and \<^verbatim>\<open>had_connections\<close> stays false,
  however many passes of the monitor run after the grace period.
\<close>

theorem never_registered_never_exits:
  assumes "\<forall>s' \<in> set (states (init t0) es). active_connections s' = {}"
  shows "exit_calls (run (init t0) es) = 0 \<and> \<not> had_connections (run (init t0) es) \<and>
         (\<forall>s' \<in> set (states (init t0) es). exit_calls s' = 0 \<and> \<not> had_connections s')"
proof -
  have q: "\<forall>s' \<in> set (states (init t0) es). \<not> had_connections s' \<and> exit_calls s' = 0"
    using assms by (intro states_quiet) (simp_all add: init_def)
  moreover have "run (init t0) es \<in> set (states (init t0) es)" by (rule run_in_states)
  ultimately show ?thesis by blast
qed

text \<open>
  C3 at a concrete execution: passes before and long after the grace period, an empty
  payload, a \<^verbatim>\<open>disconnected\<close> for an unknown id and a \<^verbatim>\<open>ping\<close> with an empty id.
\<close>

theorem never_registered_never_exits_witness:
  "map active_connections (states (init 0) [Tick 10 10, Signal PyNone 20, Tick 70 70,
        Signal (signal ''disconnected'' ''X'') 80, Signal (signal ''ping'' '''') 90, Tick 400 400])
     = [{}, {}, {}, {}, {}, {}, {}] \<and>
   exit_calls (run (init 0) [Tick 10 10, Signal PyNone 20, Tick 70 70,
        Signal (signal ''disconnected'' ''X'') 80, Signal (signal ''ping'' '''') 90, Tick 400 400]) = 0"
proof -
  let ?es = "[Tick 10 10, Signal PyNone 20, Tick 70 70,
        Signal (signal ''disconnected'' ''X'') 80, Signal (signal ''ping'' '''') 90, Tick 400 400]"
  have m: "map active_connections (states (init 0) ?es) = [{}, {}, {}, {}, {}, {}, {}]"
    by (simp add: handle_connection_status_def signal_def init_def dict_get_def
       monitor_connections_pass_def remove_stale_def stale_connections_def last_ping_or_0_def
       startup_grace_period_def connection_timeout_def Let_def)
  have "set (map active_connections (states (init 0) ?es)) = {{}}"
    by (simp only: m) simp
  then have h: "\<forall>s' \<in> set (states (init 0) ?es). active_connections s' = {}"
    by (simp only: set_map) blast
  from never_registered_never_exits [OF h] have "exit_calls (run (init 0) ?es) = 0" by blast
  with m show ?thesis by blast
qed

subsection \<open>C4: eviction of stale sessions\<close>

text \<open>
  C4, as stated, fails in its second half. The last signal of \<open>X\<close> is read at clock 70.
  The pass that reads clock 370 keeps the session, since 300 is not more than the timeout.
  \<^verbatim>\<open>time.sleep(2)\<close> bounds the distance to the next pass from below only: the next pass
  reads clock 372.5, at least a sweep interval later. So the session is still registered
  at clock 372, which is the timeout plus the sweep interval after its last signal, and
  it is removed 302.5 after that signal.
\<close>

theorem eviction_later_than_timeout_plus_sweep:
  "connection_last_ping (run (init 1) [Signal (signal ''connected'' ''X'') 70, Tick 370 370])
     (PyStr ''X'') = Some 70 \<and>
   PyStr ''X'' \<in> active_connections
     (run (init 1) [Signal (signal ''connected'' ''X'') 70, Tick 370 370]) \<and>
   sweep_interval \<le> 745 / 2 - 370 \<and>
   connection_timeout + sweep_interval < 745 / 2 - 70 \<and>
   PyStr ''X'' \<notin> active_connections
     (run (init 1) [Signal (signal ''connected'' ''X'') 70, Tick 370 370,
        Tick (745 / 2) (745 / 2)])"
  by (simp add: run_def handle_connection_status_def signal_def init_def dict_get_def
       monitor_connections_pass_def remove_stale_def stale_connections_def last_ping_or_0_def
       startup_grace_period_def connection_timeout_def sweep_interval_def Let_def)

text \<open>
  C4, amended. Take any state reached from process start, with a clock that is positive
  and whose readings in the callbacks are not before \<^verbatim>\<open>startup_time\<close>, and any session
  \<open>c\<close> of the registry. It has a recorded last-seen time, and for every pass of the
  monitor loop:
  \<^item> a pass that stops at the grace-period test reads a clock \<open>t_check\<close> at which the
    session is not stale;
  \<^item> a pass that goes on and reads \<open>now\<close> with \<open>now - last_seen > connection_timeout\<close>
    evicts the session in that pass, from the set and from the map;
  \<^item> a pass with \<open>now - last_seen \<le> connection_timeout\<close> keeps the session and its
    last-seen time, so the session is kept for at least the timeout;
  \<^item> if the session survives this pass and is gone after a following pass that reads
    \<open>later\<close>, then \<open>later\<close> is more than \<open>connection_timeout\<close> past the last signal and
    at most \<open>connection_timeout\<close> plus the distance \<open>later - now\<close> between the two passes
    past it. The code bounds that distance from below only.
\<close>

theorem stale_sessions_reaped:
  assumes "0 < t0" and "\<forall>e \<in> set es. after_start t0 e"
    and "c \<in> active_connections (run (init t0) es)"
  shows "\<exists>last_seen.
    connection_last_ping (run (init t0) es) c = Some last_seen \<and>
    (t_check - startup_time (run (init t0) es) < startup_grace_period \<longrightarrow>
       t_check - last_seen \<le> connection_timeout) \<and>
    (startup_grace_period \<le> t_check - startup_time (run (init t0) es) \<and>
     connection_timeout < now - last_seen \<longrightarrow>
       c \<notin> active_connections (monitor_connections_pass t_check now (run (init t0) es)) \<and>
       connection_last_ping (monitor_connections_pass t_check now (run (init t0) es)) c = None) \<and>
    (now - last_seen \<le> connection_timeout \<longrightarrow>
       c \<in> active_connections (monitor_connections_pass t_check now (run (init t0) es)) \<and>
       connection_last_ping (monitor_connections_pass t_check now (run (init t0) es)) c
         = Some last_seen) \<and>
    (\<forall>n_check later.
       startup_grace_period \<le> t_check - startup_time (run (init t0) es) \<and>
       startup_grace_period \<le> n_check - startup_time (run (init t0) es) \<and>
       c \<in> active_connections (monitor_connections_pass t_check now (run (init t0) es)) \<and>
       c \<notin> active_connections (monitor_connections_pass n_check later
               (monitor_connections_pass t_check now (run (init t0) es))) \<longrightarrow>
       connection_timeout < later - last_seen \<and>
       later - last_seen \<le> connection_timeout + (later - now))"
proof -
  let ?s = "run (init t0) es"
  let ?p = "monitor_connections_pass t_check now ?s"
  obtain v where v: "connection_last_ping ?s c = Some v" "t0 \<le> v" "0 < v"
    using reachable_last_ping [OF assms] by blast
  have st: "startup_time ?s = t0" by (simp add: run_startup init_def)
  have lp: "last_ping_or_0 ?s c = v" using v(1) by (simp add: last_ping_or_0_def)
  have stale: "\<And>t. c \<in> stale_connections t ?s \<longleftrightarrow> connection_timeout < t - v"
    using assms(3) v(3) lp by (simp add: stale_iff)
  have a: "t_check - startup_time ?s < startup_grace_period \<longrightarrow> t_check - v \<le> connection_timeout"
    using v(2) st by (simp add: startup_grace_period_def connection_timeout_def)
  have b: "startup_grace_period \<le> t_check - startup_time ?s \<and> connection_timeout < now - v \<longrightarrow>
       c \<notin> active_connections ?p \<and> connection_last_ping ?p c = None"
    using stale [of now] by (simp add: pass_active pass_ping)
  have keep: "now - v \<le> connection_timeout \<Longrightarrow>
       c \<in> active_connections ?p \<and> connection_last_ping ?p c = Some v"
  proof (cases "t_check - startup_time ?s < startup_grace_period")
    case True
    then show ?thesis using assms(3) v(1) by (simp add: pass_skipped)
  next
    case False
    assume "now - v \<le> connection_timeout"
    then have "c \<notin> stale_connections now ?s" using stale [of now] by simp
    then show ?thesis using False assms(3) v(1) by (simp add: pass_active pass_ping)
  qed
  have d: "connection_timeout < later - v \<and> later - v \<le> connection_timeout + (later - now)"
    if g1: "startup_grace_period \<le> t_check - startup_time ?s"
      and g2: "startup_grace_period \<le> n_check - startup_time ?s"
      and kept: "c \<in> active_connections ?p"
      and gone: "c \<notin> active_connections (monitor_connections_pass n_check later ?p)"
    for n_check later
  proof -
    have "c \<notin> stale_connections now ?s" using kept g1 by (simp add: pass_active)
    then have le: "now - v \<le> connection_timeout" using stale [of now] by simp
    have pv: "connection_last_ping ?p c = Some v" using keep [OF le] by simp
    have g2': "startup_grace_period \<le> n_check - startup_time ?p"
      using g2 by (simp add: pass_startup)
    have "c \<in> stale_connections later ?p"
      using gone kept g2' by (simp add: pass_active)
    then have "connection_timeout < later - last_ping_or_0 ?p c" by (simp add: stale_iff)
    then have gt: "connection_timeout < later - v" using pv by (simp add: last_ping_or_0_def)
    from le have "later - v \<le> connection_timeout + (later - now)" by simp
    with gt show ?thesis by simp
  qed
  show ?thesis
    using v(1) a b keep d by (intro exI [of _ v]) blast
qed

text \<open>
  The amended C4 at a concrete execution: \<open>X\<close> connected at clock 70 and \<open>Y\<close> was last
  heard at 200. The pass at clock 370 keeps \<open>X\<close>, the pass at 372.5 evicts it, and 372.5
  is within the timeout plus the distance 2.5 between the passes of the last signal of
  \<open>X\<close>.
\<close>

theorem stale_sessions_reaped_witness:
  "0 < (1::real) \<and>
   after_start 1 (Signal (signal ''connected'' ''X'') 70) \<and>
   after_start 1 (Signal (signal ''hidden'' ''Y'') 200) \<and>
   PyStr ''X'' \<in> active_connections (run (init 1)
      [Signal (signal ''connected'' ''X'') 70, Signal (signal ''hidden'' ''Y'') 200]) \<and>
   PyStr ''X'' \<in> active_connections (monitor_connections_pass 370 370 (run (init 1)
      [Signal (signal ''connected'' ''X'') 70, Signal (signal ''hidden'' ''Y'') 200])) \<and>
   PyStr ''X'' \<notin> active_connections (monitor_connections_pass (745 / 2) (745 / 2) (run (init 1)
      [Signal (signal ''connected'' ''X'') 70, Signal (signal ''hidden'' ''Y'') 200])) \<and>
   745 / 2 - 70 \<le> connection_timeout + (745 / 2 - 370)"
proof -
  let ?es = "[Signal (signal ''connected'' ''X'') 70, Signal (signal ''hidden'' ''Y'') 200]"
  let ?s = "run (init 1) ?es"
  have h1: "0 < (1::real)" by simp
  have h2: "\<forall>e \<in> set ?es. after_start 1 e" by simp
  have h3: "PyStr ''X'' \<in> active_connections ?s"
    by (simp add: run_def handle_connection_status_def signal_def init_def dict_get_def Let_def)
  have lp: "connection_last_ping ?s (PyStr ''X'') = Some 70"
    by (simp add: run_def handle_connection_status_def signal_def init_def dict_get_def Let_def)
  have g: "startup_grace_period \<le> 370 - startup_time ?s"
    by (simp add: run_startup init_def startup_grace_period_def)
  have g': "startup_grace_period \<le> 745 / 2 - startup_time ?s"
    by (simp add: run_startup init_def startup_grace_period_def)
  obtain last_seen where ls: "connection_last_ping ?s (PyStr ''X'') = Some last_seen"
    and keep: "370 - last_seen \<le> connection_timeout \<longrightarrow>
             PyStr ''X'' \<in> active_connections (monitor_connections_pass 370 370 ?s) \<and>
             connection_last_ping (monitor_connections_pass 370 370 ?s) (PyStr ''X'')
               = Some last_seen"
    and bound: "\<forall>n_check later.
       startup_grace_period \<le> 370 - startup_time ?s \<and>
       startup_grace_period \<le> n_check - startup_time ?s \<and>
       PyStr ''X'' \<in> active_connections (monitor_connections_pass 370 370 ?s) \<and>
       PyStr ''X'' \<notin> active_connections (monitor_connections_pass n_check later
               (monitor_connections_pass 370 370 ?s)) \<longrightarrow>
       connection_timeout < later - last_seen \<and>
       later - last_seen \<le> connection_timeout + (later - 370)"
    using stale_sessions_reaped [OF h1 h2 h3, of 370 370] by blast
  obtain last_seen' where ls': "connection_last_ping ?s (PyStr ''X'') = Some last_seen'"
    and ev: "startup_grace_period \<le> 745 / 2 - startup_time ?s \<and>
             connection_timeout < 745 / 2 - last_seen' \<longrightarrow>
             PyStr ''X'' \<notin> active_connections (monitor_connections_pass (745 / 2) (745 / 2) ?s) \<and>
             connection_last_ping (monitor_connections_pass (745 / 2) (745 / 2) ?s) (PyStr ''X'')
               = None"
    using stale_sessions_reaped [OF h1 h2 h3, of "745 / 2" "745 / 2"] by blast
  have l70: "last_seen = 70" using ls lp by simp
  have l70': "last_seen' = 70" using ls' lp by simp
  have "370 - last_seen \<le> connection_timeout" using l70 by (simp add: connection_timeout_def)
  with keep have k: "PyStr ''X'' \<in> active_connections (monitor_connections_pass 370 370 ?s)"
    by blast
  have "connection_timeout < 745 / 2 - last_seen'"
    using l70' by (simp add: connection_timeout_def)
  with ev g' have e: "PyStr ''X'' \<notin> active_connections
      (monitor_connections_pass (745 / 2) (745 / 2) ?s)"
    by blast
  have gone: "PyStr ''X'' \<notin> active_connections (monitor_connections_pass (745 / 2) (745 / 2)
               (monitor_connections_pass 370 370 ?s))"
    by (simp add: run_def handle_connection_status_def signal_def init_def dict_get_def
       monitor_connections_pass_def remove_stale_def stale_connections_def last_ping_or_0_def
       startup_grace_period_def connection_timeout_def Let_def)
  from bound g g' k gone
  have "745 / 2 - last_seen \<le> connection_timeout + (745 / 2 - 370)" by blast
  then have b: "745 / 2 - 70 \<le> connection_timeout + (745 / 2 - 370)" by (simp only: l70)
  from h1 h3 k e b show ?thesis by simp
qed

subsection \<open>C5: resubmitted signals\<close>

text \<open>
  C5. Any non-empty sequence of \<^verbatim>\<open>connected\<close> and \<^verbatim>\<open>ping\<close> callbacks for one non-empty
  id, run on a live process, leaves the registry equal to the old one with that id
  inserted: the id is counted once, in the set and among the keys of the map. A
  \<^verbatim>\<open>disconnected\<close> callback for an id that is not in the registry returns the state it
  was given.
\<close>

theorem resubmitted_signals_idempotent:
  "(cid \<noteq> [] \<and> exit_calls s = 0 \<and> es \<noteq> [] \<and> (\<forall>e \<in> set es. connect_or_ping cid e) \<longrightarrow>
      active_connections (run s es) = insert (PyStr cid) (active_connections s) \<and>
      dom (connection_last_ping (run s es)) = insert (PyStr cid) (dom (connection_last_ping s)) \<and>
      card {c \<in> active_connections (run s es). c = PyStr cid} = 1) \<and>
   (dict_get d ''status'' = PyStr ''disconnected'' \<and> dict_get d ''id'' \<notin> active_connections s \<longrightarrow>
      new_state (handle_connection_status (PyDict d) now s) = s)"
proof (intro conjI impI)
  assume a: "cid \<noteq> [] \<and> exit_calls s = 0 \<and> es \<noteq> [] \<and> (\<forall>e \<in> set es. connect_or_ping cid e)"
  then have r: "active_connections (run s es) = insert (PyStr cid) (active_connections s) \<and>
         dom (connection_last_ping (run s es)) = insert (PyStr cid) (dom (connection_last_ping s)) \<and>
         exit_calls (run s es) = 0"
    by (intro run_connect_or_ping) simp_all
  show "active_connections (run s es) = insert (PyStr cid) (active_connections s)"
    using r by simp
  show "dom (connection_last_ping (run s es)) = insert (PyStr cid) (dom (connection_last_ping s))"
    using r by simp
  have "{c \<in> active_connections (run s es). c = PyStr cid} = {PyStr cid}"
    using r by auto
  then show "card {c \<in> active_connections (run s es). c = PyStr cid} = 1" by simp
next
  assume "dict_get d ''status'' = PyStr ''disconnected'' \<and> dict_get d ''id'' \<notin> active_connections s"
  then show "new_state (handle_connection_status (PyDict d) now s) = s"
    by (simp add: handler_disconnect_absent)
qed

text \<open>
  C5 at a concrete input: three callbacks for \<open>X\<close> leave one entry, and a
  \<^verbatim>\<open>disconnected\<close> for the unknown \<open>Y\<close> changes nothing.
\<close>

theorem resubmitted_signals_idempotent_witness:
  "''X'' \<noteq> [] \<and> exit_calls (init 0) = 0 \<and>
   connect_or_ping ''X'' (Signal (signal ''connected'' ''X'') 5) \<and>
   connect_or_ping ''X'' (Signal (signal ''ping'' ''X'') 15) \<and>
   connect_or_ping ''X'' (Signal (signal ''connected'' ''X'') 25) \<and>
   active_connections (run (init 0) [Signal (signal ''connected'' ''X'') 5,
       Signal (signal ''ping'' ''X'') 15, Signal (signal ''connected'' ''X'') 25]) = {PyStr ''X''} \<and>
   dict_get [(''status'', PyStr ''disconnected''), (''id'', PyStr ''Y'')] ''status''
     = PyStr ''disconnected'' \<and>
   dict_get [(''status'', PyStr ''disconnected''), (''id'', PyStr ''Y'')] ''id''
     \<notin> active_connections (init 0) \<and>
   new_state (handle_connection_status (signal ''disconnected'' ''Y'') 30 (init 0)) = init 0"
proof -
  let ?es = "[Signal (signal ''connected'' ''X'') 5, Signal (signal ''ping'' ''X'') 15,
                 Signal (signal ''connected'' ''X'') 25]"
  let ?d = "[(''status'', PyStr ''disconnected''), (''id'', PyStr ''Y'')]"
  have h1: "''X'' \<noteq> []" by simp
  have h2: "exit_calls (init 0) = 0" by (simp add: init_def)
  have h3: "?es \<noteq> []" by simp
  have h4: "\<forall>e \<in> set ?es. connect_or_ping ''X'' e" by (simp add: signal_def dict_get_def)
  have h5: "dict_get ?d ''status'' = PyStr ''disconnected''" by (simp add: dict_get_def)
  have h6: "dict_get ?d ''id'' \<notin> active_connections (init 0)" by (simp add: init_def)
  note inst = resubmitted_signals_idempotent [of "''X''" "init 0" ?es ?d 30]
  from inst h1 h2 h3 h4
  have "active_connections (run (init 0) ?es) = insert (PyStr ''X'') (active_connections (init 0))"
    by blast
  then have r1: "active_connections (run (init 0) ?es) = {PyStr ''X''}" by (simp add: init_def)
  from inst h5 h6 have "new_state (handle_connection_status (PyDict ?d) 30 (init 0)) = init 0"
    by blast
  then have r2: "new_state (handle_connection_status (signal ''disconnected'' ''Y'') 30 (init 0)) = init 0"
    by (simp add: signal_def)
  from h4 have h4': "connect_or_ping ''X'' (Signal (signal ''connected'' ''X'') 5) \<and>
      connect_or_ping ''X'' (Signal (signal ''ping'' ''X'') 15) \<and>
      connect_or_ping ''X'' (Signal (signal ''connected'' ''X'') 25)"
    by simp
  from h1 h2 h4' r1 h5 h6 r2 show ?thesis by blast
qed

subsection \<open>C6: malformed signals\<close>




subsection \<open>C7: \<^verbatim>\<open>ping\<close> and \<^verbatim>\<open>hidden\<close>\<close>

text \<open>
  C7. A \<^verbatim>\<open>ping\<close> or \<^verbatim>\<open>hidden\<close> callback whose payload carries an id (a truthy value
  that can be an element of a set: a non-empty string, or a number other than 0) inserts
  the id into the registry if it was not there, keeps it if it was, and records the clock
  reading of the callback as its last-ping time; the id is in the registry afterwards,
  nothing else of the tracker state changes, and the call returns.
\<close>

theorem ping_hidden_upsert:
  assumes "truthy (dict_get d ''id'')" and "hashable (dict_get d ''id'')"
    and "dict_get d ''status'' \<in> {PyStr ''ping'', PyStr ''hidden''}"
  shows "new_state (handle_connection_status (PyDict d) now s) =
           s\<lparr>active_connections := insert (dict_get d ''id'') (active_connections s),
             connection_last_ping := (connection_last_ping s)(dict_get d ''id'' \<mapsto> now)\<rparr> \<and>
         dict_get d ''id'' \<in> active_connections (new_state (handle_connection_status (PyDict d) now s)) \<and>
         connection_last_ping (new_state (handle_connection_status (PyDict d) now s)) (dict_get d ''id'')
           = Some now \<and>
         outcome (handle_connection_status (PyDict d) now s) = Inr no_update"
proof -
  have e: "new_state (handle_connection_status (PyDict d) now s) =
           s\<lparr>active_connections := insert (dict_get d ''id'') (active_connections s),
             connection_last_ping := (connection_last_ping s)(dict_get d ''id'' \<mapsto> now)\<rparr>"
    using assms by (intro handler_upsert(1)) auto
  have r: "outcome (handle_connection_status (PyDict d) now s) = Inr no_update"
    using assms by (intro handler_upsert(2)) auto
  show ?thesis by (simp add: e r)
qed

text \<open>
  C7 at concrete inputs: a \<^verbatim>\<open>hidden\<close> for the unknown id \<open>Y\<close> registers it, with the
  clock reading 90 as its last-ping time.
\<close>

theorem ping_hidden_upsert_witness:
  "truthy (dict_get [(''status'', PyStr ''hidden''), (''id'', PyStr ''Y'')] ''id'') \<and>
   hashable (dict_get [(''status'', PyStr ''hidden''), (''id'', PyStr ''Y'')] ''id'') \<and>
   dict_get [(''status'', PyStr ''hidden''), (''id'', PyStr ''Y'')] ''status''
     \<in> {PyStr ''ping'', PyStr ''hidden''} \<and>
   PyStr ''Y'' \<in> active_connections
      (new_state (handle_connection_status (signal ''hidden'' ''Y'') 90 (init 0))) \<and>
   connection_last_ping
      (new_state (handle_connection_status (signal ''hidden'' ''Y'') 90 (init 0))) (PyStr ''Y'')
     = Some 90"
proof -
  let ?d = "[(''status'', PyStr ''hidden''), (''id'', PyStr ''Y'')]"
  have h1: "truthy (dict_get ?d ''id'')" by (simp add: dict_get_def)
  have h1': "hashable (dict_get ?d ''id'')" by (simp add: dict_get_def)
  have h2: "dict_get ?d ''status'' \<in> {PyStr ''ping'', PyStr ''hidden''}" by (simp add: dict_get_def)
  have v: "dict_get ?d ''id'' = PyStr ''Y''" by (simp add: dict_get_def)
  from ping_hidden_upsert [OF h1 h1' h2, of 90 "init 0"]
  have "dict_get ?d ''id'' \<in> active_connections (new_state (handle_connection_status (PyDict ?d) 90 (init 0))) \<and>
        connection_last_ping (new_state (handle_connection_status (PyDict ?d) 90 (init 0))) (dict_get ?d ''id'')
           = Some 90"
    by blast
  then have "PyStr ''Y'' \<in> active_connections
      (new_state (handle_connection_status (signal ''hidden'' ''Y'') 90 (init 0))) \<and>
   connection_last_ping
      (new_state (handle_connection_status (signal ''hidden'' ''Y'') 90 (init 0))) (PyStr ''Y'')
     = Some 90"
    by (simp only: v signal_def)
  with h1 h1' h2 show ?thesis by blast
qed

subsection \<open>C8: the flag is monotone\<close>

text \<open>
  C8. Once \<^verbatim>\<open>had_connections\<close> is true it stays true: through every callback, through
  the eviction of stale ids, through every pass of the monitor loop (with its occupancy
  check), and so through every execution, whatever the registry holds on the way.
\<close>

theorem had_connections_monotone:
  assumes "had_connections s"
  shows "had_connections (new_state (handle_connection_status data now s)) \<and>
         had_connections (remove_stale current_time s) \<and>
         had_connections (monitor_connections_pass t_check current_time s) \<and>
         had_connections (run s es)"
  using assms by (simp add: handler_had remove_stale_had pass_had run_had)

text \<open>
  C8 at a concrete execution: the flag is set at clock 72, the registry is emptied at 73
  and refilled at 74, and the flag is still true at the end.
\<close>

theorem had_connections_monotone_witness:
  "had_connections (run (init 0) [Signal (signal ''connected'' ''X'') 70, Tick 72 72]) \<and>
   active_connections (run (init 0) [Signal (signal ''connected'' ''X'') 70, Tick 72 72,
      Signal (signal ''disconnected'' ''X'') 73]) = {} \<and>
   had_connections (run (run (init 0) [Signal (signal ''connected'' ''X'') 70, Tick 72 72])
      [Signal (signal ''disconnected'' ''X'') 73, Signal (signal ''connected'' ''Y'') 74])"
proof -
  let ?s = "run (init 0) [Signal (signal ''connected'' ''X'') 70, Tick 72 72]"
  have h: "had_connections ?s"
    by (simp add: run_def handle_connection_status_def signal_def init_def dict_get_def
       monitor_connections_pass_def remove_stale_def stale_connections_def last_ping_or_0_def
       startup_grace_period_def connection_timeout_def Let_def)
  have e: "active_connections (run (init 0) [Signal (signal ''connected'' ''X'') 70, Tick 72 72,
      Signal (signal ''disconnected'' ''X'') 73]) = {}"
    by (simp add: run_def handle_connection_status_def signal_def init_def dict_get_def
       monitor_connections_pass_def remove_stale_def stale_connections_def last_ping_or_0_def
       startup_grace_period_def connection_timeout_def Let_def)
  from had_connections_monotone [OF h]
  have "had_connections (run ?s
      [Signal (signal ''disconnected'' ''X'') 73, Signal (signal ''connected'' ''Y'') 74])"
    by blast
  with h e show ?thesis by blast
qed

subsection \<open>C9: how often the process exits\<close>

text \<open>
  C9, as stated, fails. After the grace period \<open>X\<close> connects and a pass sets the flag;
  the \<^verbatim>\<open>disconnected\<close> of clock 73 drains the registry to empty. \<open>Y\<close> connects at 74,
  before the next pass, and keeps pinging: the passes at 75 and 85 find the registry
  occupied, and \<^verbatim>\<open>os._exit\<close> has been called zero times at the end.
\<close>

theorem drained_registry_exits_zero_times:
  "had_connections (run (init 0) [Signal (signal ''connected'' ''X'') 70, Tick 72 72,
      Signal (signal ''disconnected'' ''X'') 73]) \<and>
   active_connections (run (init 0) [Signal (signal ''connected'' ''X'') 70, Tick 72 72,
      Signal (signal ''disconnected'' ''X'') 73]) = {} \<and>
   startup_grace_period \<le> 73 - startup_time (run (init 0)
      [Signal (signal ''connected'' ''X'') 70, Tick 72 72,
       Signal (signal ''disconnected'' ''X'') 73]) \<and>
   exit_calls (run (init 0) [Signal (signal ''connected'' ''X'') 70, Tick 72 72,
      Signal (signal ''disconnected'' ''X'') 73, Signal (signal ''connected'' ''Y'') 74,
      Tick 75 75, Signal (signal ''ping'' ''Y'') 84, Tick 85 85]) = 0"
  by (simp add: run_def handle_connection_status_def signal_def init_def dict_get_def
       monitor_connections_pass_def remove_stale_def stale_connections_def last_ping_or_0_def
       startup_grace_period_def connection_timeout_def Let_def)

text \<open>
  C9, amended. In every execution from process start, that is in every order in which the
  lock admits the callbacks and the passes of the monitor, \<^verbatim>\<open>os._exit\<close> is called at
  most once. It is called, for the first and only time, by a pass after the grace period
  that finds the registry empty once the stale ids are removed while \<^verbatim>\<open>had_connections\<close>
  is true; after that call no further step changes anything. No other step calls it: a
  callback never changes the number of calls, and a pass changes it in that case only, so
  a pass inside the grace period, a pass that finds the registry occupied (a drain that
  was refilled before the pass) and a pass with the flag false issue no terminate action.
\<close>

theorem exit_at_most_once:
  "exit_calls (run (init t0) es) \<le> 1 \<and>
   (exit_calls (run (init t0) es) = 0 \<and> had_connections (run (init t0) es) \<and>
    startup_grace_period \<le> t_check - t0 \<and>
    active_connections (remove_stale current_time (run (init t0) es)) = {} \<longrightarrow>
      exit_calls (run (init t0) (es @ [Tick t_check current_time])) = 1) \<and>
   (exit_calls (run (init t0) es) = 1 \<longrightarrow> run (init t0) (es @ es') = run (init t0) es) \<and>
   exit_calls (step s (Signal data now)) = exit_calls s \<and>
   exit_calls (step s (Tick t_check current_time)) =
     (if exit_calls s = 0 \<and> startup_grace_period \<le> t_check - startup_time s \<and>
         had_connections s \<and> active_connections (remove_stale current_time s) = {}
      then 1 else exit_calls s)"
proof (intro conjI impI)
  show "exit_calls (run (init t0) es) \<le> 1" by (rule run_exit_le)
next
  assume a: "exit_calls (run (init t0) es) = 0 \<and> had_connections (run (init t0) es) \<and>
    startup_grace_period \<le> t_check - t0 \<and>
    active_connections (remove_stale current_time (run (init t0) es)) = {}"
  have st: "startup_time (run (init t0) es) = t0" by (simp add: run_startup init_def)
  show "exit_calls (run (init t0) (es @ [Tick t_check current_time])) = 1"
    using a st by (simp add: run_snoc pass_exit)
next
  assume "exit_calls (run (init t0) es) = 1"
  then have "run (run (init t0) es) es' = run (init t0) es" by (intro run_exited) simp
  then show "run (init t0) (es @ es') = run (init t0) es" by (simp add: run_def)
next
  show "exit_calls (step s (Signal data now)) = exit_calls s"
    by (simp add: handler_exit)
next
  show "exit_calls (step s (Tick t_check current_time)) =
     (if exit_calls s = 0 \<and> startup_grace_period \<le> t_check - startup_time s \<and>
         had_connections s \<and> active_connections (remove_stale current_time s) = {}
      then 1 else exit_calls s)"
    by (simp add: pass_exit)
qed

text \<open>
  The amended C9 at a concrete execution: the pass at clock 74 after the drain of clock 73
  exits the process; had \<open>Y\<close> connected at 74 before a pass at 75, that pass would have
  left the number of calls at zero.
\<close>

theorem exit_at_most_once_witness:
  "exit_calls (run (init 0) [Signal (signal ''connected'' ''X'') 70, Tick 72 72,
      Signal (signal ''disconnected'' ''X'') 73]) = 0 \<and>
   had_connections (run (init 0) [Signal (signal ''connected'' ''X'') 70, Tick 72 72,
      Signal (signal ''disconnected'' ''X'') 73]) \<and>
   startup_grace_period \<le> 74 - 0 \<and>
   active_connections (remove_stale 74 (run (init 0) [Signal (signal ''connected'' ''X'') 70,
      Tick 72 72, Signal (signal ''disconnected'' ''X'') 73])) = {} \<and>
   exit_calls (run (init 0) ([Signal (signal ''connected'' ''X'') 70, Tick 72 72,
      Signal (signal ''disconnected'' ''X'') 73] @ [Tick 74 74])) = 1 \<and>
   active_connections (remove_stale 75 (run (init 0) [Signal (signal ''connected'' ''X'') 70,
      Tick 72 72, Signal (signal ''disconnected'' ''X'') 73,
      Signal (signal ''connected'' ''Y'') 74])) = {PyStr ''Y''} \<and>
   exit_calls (step (run (init 0) [Signal (signal ''connected'' ''X'') 70,
      Tick 72 72, Signal (signal ''disconnected'' ''X'') 73,
      Signal (signal ''connected'' ''Y'') 74]) (Tick 75 75)) = 0"
proof -
  let ?es = "[Signal (signal ''connected'' ''X'') 70, Tick 72 72,
      Signal (signal ''disconnected'' ''X'') 73]"
  let ?s = "run (init 0) [Signal (signal ''connected'' ''X'') 70,
      Tick 72 72, Signal (signal ''disconnected'' ''X'') 73,
      Signal (signal ''connected'' ''Y'') 74]"
  have h1: "exit_calls (run (init 0) ?es) = 0"
    by (simp add: run_def handle_connection_status_def signal_def init_def dict_get_def
       monitor_connections_pass_def remove_stale_def stale_connections_def last_ping_or_0_def
       startup_grace_period_def connection_timeout_def Let_def)
  have h2: "had_connections (run (init 0) ?es)"
    by (simp add: run_def handle_connection_status_def signal_def init_def dict_get_def
       monitor_connections_pass_def remove_stale_def stale_connections_def last_ping_or_0_def
       startup_grace_period_def connection_timeout_def Let_def)
  have h3: "startup_grace_period \<le> 74 - 0" by (simp add: startup_grace_period_def)
  have h4: "active_connections (remove_stale 74 (run (init 0) ?es)) = {}"
    by (simp add: run_def handle_connection_status_def signal_def init_def dict_get_def
       monitor_connections_pass_def remove_stale_def stale_connections_def last_ping_or_0_def
       startup_grace_period_def connection_timeout_def Let_def)
  have h5: "active_connections (remove_stale 75 ?s) = {PyStr ''Y''}"
    by (simp add: run_def handle_connection_status_def signal_def init_def dict_get_def
       monitor_connections_pass_def remove_stale_def stale_connections_def last_ping_or_0_def
       startup_grace_period_def connection_timeout_def Let_def)
  have h6: "exit_calls ?s = 0"
    by (simp add: run_def handle_connection_status_def signal_def init_def dict_get_def
       monitor_connections_pass_def remove_stale_def stale_connections_def last_ping_or_0_def
       startup_grace_period_def connection_timeout_def Let_def)
  from exit_at_most_once [of 0 ?es 74 74 "[]" "init 0" PyNone 0] h1 h2 h3 h4
  have r1: "exit_calls (run (init 0) (?es @ [Tick 74 74])) = 1" by blast
  from exit_at_most_once [of 0 "[]" 75 75 "[]" ?s PyNone 0]
  have "exit_calls (step ?s (Tick 75 75)) =
     (if exit_calls ?s = 0 \<and> startup_grace_period \<le> 75 - startup_time ?s \<and>
         had_connections ?s \<and> active_connections (remove_stale 75 ?s) = {}
      then 1 else exit_calls ?s)"
    by blast
  then have r2: "exit_calls (step ?s (Tick 75 75)) = 0"
    by (simp only: h5 h6) simp
  from h1 h2 h3 h4 r1 h5 r2 show ?thesis by blast
qed

subsection \<open>C10: the set and the map agree\<close>

text \<open>
  C10. \<^verbatim>\<open>active_connections\<close> is the key set of \<^verbatim>\<open>connection_last_ping\<close> at process
  start; every callback, whichever branch it takes, every eviction of stale ids and every
  pass of the monitor loop keeps it so; hence it holds in every state of every execution.
\<close>

theorem registry_matches_last_ping:
  "active_connections (init t0) = dom (connection_last_ping (init t0)) \<and>
   (active_connections s = dom (connection_last_ping s) \<longrightarrow>
      active_connections (new_state (handle_connection_status data now s)) =
        dom (connection_last_ping (new_state (handle_connection_status data now s))) \<and>
      active_connections (remove_stale current_time s) =
        dom (connection_last_ping (remove_stale current_time s)) \<and>
      active_connections (monitor_connections_pass t_check current_time s) =
        dom (connection_last_ping (monitor_connections_pass t_check current_time s))) \<and>
   active_connections (run (init t0) es) = dom (connection_last_ping (run (init t0) es))"
  using pings_cover_init [of t0] pings_cover_handler [of s data now]
    pings_cover_remove_stale [of s current_time] pings_cover_pass [of s t_check current_time]
    pings_cover_run [of t0 es]
  by (simp add: pings_cover_def)

text \<open>
  C10 at a concrete input: the state after \<open>X\<close> connected satisfies the invariant, and so
  does the state after a \<^verbatim>\<open>hidden\<close> for \<open>Y\<close>.
\<close>

theorem registry_matches_last_ping_witness:
  "active_connections (new_state (handle_connection_status (signal ''connected'' ''X'') 70 (init 0)))
     = dom (connection_last_ping
         (new_state (handle_connection_status (signal ''connected'' ''X'') 70 (init 0)))) \<and>
   active_connections (new_state (handle_connection_status (signal ''hidden'' ''Y'') 80
       (new_state (handle_connection_status (signal ''connected'' ''X'') 70 (init 0)))))
     = dom (connection_last_ping (new_state (handle_connection_status (signal ''hidden'' ''Y'') 80
         (new_state (handle_connection_status (signal ''connected'' ''X'') 70 (init 0))))))"
proof -
  let ?s = "new_state (handle_connection_status (signal ''connected'' ''X'') 70 (init 0))"
  have h: "active_connections ?s = dom (connection_last_ping ?s)"
    by (simp add: handle_connection_status_def signal_def init_def dict_get_def Let_def)
  from registry_matches_last_ping [of 0 ?s "signal ''hidden'' ''Y''" 80 0 0 "[]"] h
  have "active_connections (new_state (handle_connection_status (signal ''hidden'' ''Y'') 80 ?s)) =
        dom (connection_last_ping (new_state (handle_connection_status (signal ''hidden'' ''Y'') 80 ?s)))"
    by blast
  with h show ?thesis by blast
qed

end
